theory Spec2Isabelle
  imports Main
begin

section \<open>JavaScript values\<close>

text \<open>
  The server of \<^verbatim>\<open>index.js\<close> handles values decoded from JSON: API responses, tool
  arguments and the cached session token. A JSON object is kept as the list of its own
  entries in the order \<^verbatim>\<open>Object.entries\<close> yields them, with distinct keys. A value that
  may be \<^verbatim>\<open>undefined\<close> (a missing property) is a \<open>json option\<close>, with \<open>None\<close> for
  \<^verbatim>\<open>undefined\<close>. Numbers are the integers, printed in decimal. Keys that are array
  indices, which JavaScript lists before the other keys, are outside the model, and so
  are values JSON cannot carry (functions, symbols). A string is a list of characters;
  the code modelled here treats all characters alike but the few ASCII ones it names.
\<close>

datatype json =
    JNull
  | JBool bool
  | JNum int
  | JStr string
  | JArr "json list"
  | JObj "(string \<times> json) list"

text \<open>Errors thrown by the code: \<^verbatim>\<open>new Error(message)\<close> with its message, and the
  engine's own \<^verbatim>\<open>TypeError\<close> (a property read on \<^verbatim>\<open>null\<close> or \<^verbatim>\<open>undefined\<close>, a call of
  something that is not a function, a rejected \<^verbatim>\<open>fetch\<close>) and \<^verbatim>\<open>SyntaxError\<close>
  (\<^verbatim>\<open>response.json()\<close> on a body that is not JSON).\<close>

datatype error = Error string | TypeError | SyntaxError

text \<open>Truthiness, as \<^verbatim>\<open>if (x)\<close>, \<^verbatim>\<open>!x\<close>, \<^verbatim>\<open>x || y\<close> and \<^verbatim>\<open>x && y\<close> test it.\<close>

fun truthy :: "json \<Rightarrow> bool" where
  "truthy JNull = False"
| "truthy (JBool b) = b"
| "truthy (JNum n) = (n \<noteq> 0)"
| "truthy (JStr s) = (s \<noteq> [])"
| "truthy (JArr xs) = True"
| "truthy (JObj kvs) = True"

fun truthyU :: "json option \<Rightarrow> bool" where
  "truthyU None = False"
| "truthyU (Some v) = truthy v"

text \<open>\<^verbatim>\<open>a || b\<close>: the left operand when it is truthy, the right one otherwise.\<close>

definition orElse :: "json option \<Rightarrow> json option \<Rightarrow> json option" where
  "orElse a b = (if truthyU a then a else b)"

text \<open>\<^verbatim>\<open>obj.name\<close> and \<^verbatim>\<open>obj[name]\<close>: a read on an object yields the own property or
  \<^verbatim>\<open>undefined\<close> (\<open>ownProp\<close>); a read on \<^verbatim>\<open>null\<close> or \<^verbatim>\<open>undefined\<close> throws
  (\<open>getProp\<close>). Properties inherited from a prototype and the index and length
  properties of strings and arrays are outside the model.\<close>

fun ownProp :: "json \<Rightarrow> string \<Rightarrow> json option" where
  "ownProp (JObj kvs) k = map_of kvs k"
| "ownProp v k = None"

fun getProp :: "json option \<Rightarrow> string \<Rightarrow> error + json option" where
  "getProp None k = Inl TypeError"
| "getProp (Some JNull) k = Inl TypeError"
| "getProp (Some v) k = Inr (ownProp v k)"

text \<open>\<^verbatim>\<open>a || d\<close> where the right operand is a literal, so the result is defined.\<close>

definition orElseV :: "json option \<Rightarrow> json \<Rightarrow> json" where
  "orElseV a d = (case a of None \<Rightarrow> d | Some v \<Rightarrow> if truthy v then v else d)"

text \<open>\<^verbatim>\<open>typeof v === 'object'\<close>: true of \<^verbatim>\<open>null\<close>, arrays and objects.\<close>

fun typeofObject :: "json option \<Rightarrow> bool" where
  "typeofObject (Some JNull) = True"
| "typeofObject (Some (JArr xs)) = True"
| "typeofObject (Some (JObj kvs)) = True"
| "typeofObject v = False"

text \<open>Decimal printing of a number, as \<^verbatim>\<open>String(n)\<close> and template literals do.\<close>

fun showNat :: "nat \<Rightarrow> string" where
  "showNat n =
     (if n < 10 then [''0123456789'' ! n]
      else showNat (n div 10) @ [''0123456789'' ! (n mod 10)])"

declare showNat.simps [simp del]

definition showInt :: "int \<Rightarrow> string" where
  "showInt i = (if i < 0 then CHR ''-'' # showNat (nat (- i)) else showNat (nat i))"

text \<open>\<^verbatim>\<open>Array.prototype.join\<close> on an array of strings.\<close>

fun joinStr :: "string \<Rightarrow> string list \<Rightarrow> string" where
  "joinStr sep [] = []"
| "joinStr sep [x] = x"
| "joinStr sep (x # y # ys) = x @ sep @ joinStr sep (y # ys)"

text \<open>\<^verbatim>\<open>String(v)\<close>, which is also what a template literal \<^verbatim>\<open>${v}\<close> inserts: an array
  prints its elements joined by commas, with \<^verbatim>\<open>null\<close> elements empty.\<close>

fun jsToString :: "json \<Rightarrow> string" where
  "jsToString JNull = ''null''"
| "jsToString (JBool b) = (if b then ''true'' else ''false'')"
| "jsToString (JNum n) = showInt n"
| "jsToString (JStr s) = s"
| "jsToString (JArr xs) =
     joinStr '','' (map (\<lambda>x. case x of JNull \<Rightarrow> [] | _ \<Rightarrow> jsToString x) xs)"
| "jsToString (JObj kvs) = ''[object Object]''"

fun jsToStringU :: "json option \<Rightarrow> string" where
  "jsToStringU None = ''undefined''"
| "jsToStringU (Some v) = jsToString v"

definition newline :: string where
  "newline = [CHR 0x0A]"

section \<open>String replacement\<close>

text \<open>\<^verbatim>\<open>s.replace(/c/g, rep)\<close> for a pattern that is one literal character: every
  occurrence is replaced.\<close>

definition replaceAllChar :: "char \<Rightarrow> string \<Rightarrow> string \<Rightarrow> string" where
  "replaceAllChar c rep s = concat (map (\<lambda>x. if x = c then rep else [x]) s)"

text \<open>\<^verbatim>\<open>s.replace('c', rep)\<close> for a string pattern of one character: only the first
  occurrence is replaced.\<close>

fun replaceFirstChar :: "char \<Rightarrow> string \<Rightarrow> string \<Rightarrow> string" where
  "replaceFirstChar c rep [] = []"
| "replaceFirstChar c rep (x # xs) = (if x = c then rep @ xs else x # replaceFirstChar c rep xs)"

section \<open>escapeXml\<close>

text \<open>
  \<^verbatim>\<open>
  escapeXml(text) {
    if (typeof text !== 'string') return text;
    return text
      .replace(/&/g, '&amp;')
      .replace(/</g, '&lt;')
      .replace(/>/g, '&gt;')
      .replace(/"/g, '&quot;')
      .replace(/'/g, '&#39;');
  }
  \<close>
  \<open>escapeXmlString\<close> is the chain of five replacements on a string, the ampersand
  first; \<open>escapeXml\<close> adds the type test.
\<close>

definition escapeXmlString :: "string \<Rightarrow> string" where
  "escapeXmlString text =
     replaceAllChar (CHR 0x27) ''&#39;''
       (replaceAllChar (CHR 0x22) ''&quot;''
         (replaceAllChar CHR ''>'' ''&gt;''
           (replaceAllChar CHR ''<'' ''&lt;''
             (replaceAllChar CHR ''&'' ''&amp;'' text))))"

fun escapeXml :: "json \<Rightarrow> json" where
  "escapeXml (JStr s) = JStr (escapeXmlString s)"
| "escapeXml v = v"

section \<open>The markup formatter\<close>

text \<open>
  \<^verbatim>\<open>formatValue(value, fieldName)\<close>, \<^verbatim>\<open>formatNestedObject(obj, fieldName)\<close> and
  \<^verbatim>\<open>formatModel(model, tagName, fields)\<close> of \<^verbatim>\<open>index.js\<close>. \<open>formatEntries\<close> is the
  \<^verbatim>\<open>Object.entries(obj).map(...)\<close> of the generic object rule; \<open>formatField\<close> is the body
  of the \<^verbatim>\<open>fields.forEach\<close> loop of \<^verbatim>\<open>formatModel\<close>, with \<open>fieldValue\<close> the value it
  reads and \<open>xmlFieldName\<close> the tag it computes; \<open>formatFields\<close> is the loop. A
  \<^verbatim>\<open>TypeError\<close> (\<^verbatim>\<open>.map\<close> on a \<^verbatim>\<open>tags\<close> value that is not an array, a model that is
  \<^verbatim>\<open>null\<close> or \<^verbatim>\<open>undefined\<close>) aborts the formatting.
\<close>

fun formatValue :: "json option \<Rightarrow> string \<Rightarrow> error + string"
  and formatNestedObject :: "(string \<times> json) list \<Rightarrow> string \<Rightarrow> error + string"
  and formatEntries :: "(string \<times> json) list \<Rightarrow> error + string list"
where
  "formatValue None fieldName = Inr []"
| "formatValue (Some JNull) fieldName = Inr []"
| "formatValue (Some (JArr xs)) fieldName =
     Inr (if fieldName = ''tags'' then
            joinStr [] (map (\<lambda>tag. ''<tag>'' @ jsToString (escapeXml tag) @ ''</tag>'') xs)
          else if fieldName = ''labels'' then
            joinStr [] (map (\<lambda>label. ''<label>'' @ jsToString (escapeXml label) @ ''</label>'') xs)
          else if fieldName = ''tests-ids'' then
            joinStr [] (map (\<lambda>id. ''<test_id>'' @ jsToString id @ ''</test_id>'') xs)
          else
            joinStr [] (map (\<lambda>item. ''<item>'' @ jsToString (escapeXml item) @ ''</item>'') xs))"
| "formatValue (Some (JObj kvs)) fieldName = formatNestedObject kvs fieldName"
| "formatValue (Some (JStr s)) fieldName = Inr (escapeXmlString s)"
| "formatValue (Some (JBool b)) fieldName = Inr (jsToString (JBool b))"
| "formatValue (Some (JNum n)) fieldName = Inr (jsToString (JNum n))"
| "formatNestedObject kvs fieldName =
     (if fieldName = ''test'' \<and> truthyU (map_of kvs ''id'') then
        (case orElseV (map_of kvs ''tags'') (JArr []) of
           JArr tags \<Rightarrow>
             Inr (newline @
                  ''    <id>'' @ jsToString (orElseV (map_of kvs ''id'') (JStr [])) @ ''</id>'' @ newline @
                  ''    <title>'' @ jsToString (escapeXml (orElseV (map_of kvs ''title'') (JStr []))) @ ''</title>'' @ newline @
                  ''    <priority>'' @ jsToString (orElseV (map_of kvs ''priority'') (JStr ''normal'')) @ ''</priority>'' @ newline @
                  ''    <tags>'' @ joinStr [] (map (\<lambda>tag. ''<tag>'' @ jsToString (escapeXml tag) @ ''</tag>'') tags) @ ''</tags>'')
         | _ \<Rightarrow> Inl TypeError)
      else
        (case formatEntries kvs of
           Inl e \<Rightarrow> Inl e
         | Inr parts \<Rightarrow> Inr (joinStr (newline @ ''    '') parts)))"
| "formatEntries [] = Inr []"
| "formatEntries ((key, v) # rest) =
     (case formatValue (Some v) key of
        Inl e \<Rightarrow> Inl e
      | Inr s \<Rightarrow>
          (case formatEntries rest of
             Inl e \<Rightarrow> Inl e
           | Inr parts \<Rightarrow> Inr ((''<'' @ key @ ''>'' @ s @ ''</'' @ key @ ''>'') # parts)))"

definition fieldValue :: "json \<Rightarrow> string \<Rightarrow> json option" where
  "fieldValue attributes field =
     (if CHR ''-'' \<in> set field then ownProp attributes field
      else orElse (ownProp attributes field)
                  (ownProp attributes (replaceFirstChar CHR ''_'' ''-'' field)))"

definition xmlFieldName :: "string \<Rightarrow> string" where
  "xmlFieldName field =
     (if CHR ''-'' \<in> set field then field else replaceFirstChar CHR ''-'' ''_'' field)"

definition formatField :: "json \<Rightarrow> string \<Rightarrow> error + string" where
  "formatField attributes field =
     (let v = fieldValue attributes field in
      case formatValue v field of
        Inl e \<Rightarrow> Inl e
      | Inr formattedValue \<Rightarrow>
          Inr (if field = ''test'' \<and> typeofObject v
               then ''  <test>'' @ formattedValue @ newline @ ''  </test>''
               else ''  <'' @ xmlFieldName field @ ''>'' @ formattedValue @
                    ''</'' @ xmlFieldName field @ ''>''))"

fun formatFields :: "json \<Rightarrow> string list \<Rightarrow> error + string list" where
  "formatFields attributes [] = Inr []"
| "formatFields attributes (field # fields) =
     (case formatField attributes field of
        Inl e \<Rightarrow> Inl e
      | Inr line \<Rightarrow>
          (case formatFields attributes fields of
             Inl e \<Rightarrow> Inl e
           | Inr lines \<Rightarrow> Inr (line # lines)))"

definition formatModel :: "json option \<Rightarrow> string \<Rightarrow> string list \<Rightarrow> error + string" where
  "formatModel model tagName fields =
     (case model of
        None \<Rightarrow> Inl TypeError
      | Some JNull \<Rightarrow> Inl TypeError
      | Some m \<Rightarrow>
          (let attributes = orElseV (ownProp m ''attributes'') (JObj []) in
           case formatFields attributes fields of
             Inl e \<Rightarrow> Inl e
           | Inr fieldLines \<Rightarrow>
               Inr (joinStr newline
                     ([''<'' @ tagName @ ''>'',
                       ''  <id>'' @ jsToString (orElseV (ownProp m ''id'') (JStr [])) @ ''</id>'']
                      @ fieldLines @ [''</'' @ tagName @ ''>'']))))"

section \<open>The authenticator and the request executor\<close>

text \<open>
  The state of the server that matters here is the cached session token
  (\<^verbatim>\<open>this.jwtToken\<close>, \<^verbatim>\<open>null\<close> at construction). The network is a script: the answer to
  the \<open>n\<close>-th call of \<^verbatim>\<open>fetch\<close>, whatever the request is. Each call is appended to the
  log \<open>sent\<close>, so the length of the log is the number of network calls made so far.
  A response carries its status, status text, body text (\<^verbatim>\<open>response.text()\<close>) and the
  result of parsing the body as JSON (\<^verbatim>\<open>response.json()\<close>, \<open>None\<close> when the body is not
  JSON); \<^verbatim>\<open>response.ok\<close> is a status from 200 to 299. A logged API request records its
  method, its path, the token sent in the \<^verbatim>\<open>Authorization\<close> header and the query
  parameters or body data.
\<close>

record response =
  status :: nat
  statusText :: string
  bodyText :: string
  bodyJson :: "json option"

definition ok :: "response \<Rightarrow> bool" where
  "ok r = (200 \<le> status r \<and> status r \<le> 299)"

text \<open>A call of \<^verbatim>\<open>fetch\<close> resolves with a response or rejects.\<close>

datatype fetch_result = Reply response | NetworkFailure

datatype http_method = GET | POST | PUT

datatype request =
    LoginRequest
  | ApiRequest http_method string json json

type_synonym network = "nat \<Rightarrow> fetch_result"

record server =
  jwtToken :: json
  sent :: "request list"

definition fetch :: "network \<Rightarrow> request \<Rightarrow> server \<Rightarrow> fetch_result \<times> server" where
  "fetch net req st = (net (length (sent st)), st\<lparr>sent := sent st @ [req]\<rparr>)"

text \<open>
  \<^verbatim>\<open>
  async authenticate() {
    if (this.jwtToken) { return this.jwtToken; }
    const response = await fetch(`${this.config.baseUrl}/api/login`, { method: 'POST', ... });
    if (!response.ok) {
      const errorText = await response.text();
      throw new Error(`Authentication failed: HTTP ${response.status}: ${response.statusText}. Response: ${errorText}`);
    }
    const data = await response.json();
    if (!data.jwt) {
      throw new Error('Authentication failed: No JWT token received in response');
    }
    this.jwtToken = data.jwt;
    return this.jwtToken;
  }
  \<close>
\<close>

definition authenticate :: "network \<Rightarrow> server \<Rightarrow> (error + json) \<times> server" where
  "authenticate net st =
     (if truthy (jwtToken st) then (Inr (jwtToken st), st)
      else
        (case fetch net LoginRequest st of
           (NetworkFailure, st1) \<Rightarrow> (Inl TypeError, st1)
         | (Reply r, st1) \<Rightarrow>
             if \<not> ok r then
               (Inl (Error (''Authentication failed: HTTP '' @ showNat (status r) @ '': '' @
                            statusText r @ ''. Response: '' @ bodyText r)), st1)
             else
               (case bodyJson r of
                  None \<Rightarrow> (Inl SyntaxError, st1)
                | Some data \<Rightarrow>
                    (case getProp (Some data) ''jwt'' of
                       Inl e \<Rightarrow> (Inl e, st1)
                     | Inr None \<Rightarrow>
                         (Inl (Error ''Authentication failed: No JWT token received in response''), st1)
                     | Inr (Some jwt) \<Rightarrow>
                         if \<not> truthy jwt then
                           (Inl (Error ''Authentication failed: No JWT token received in response''), st1)
                         else (Inr jwt, st1\<lparr>jwtToken := jwt\<rparr>)))))"

text \<open>
  \<^verbatim>\<open>makeRequest\<close>, \<^verbatim>\<open>makePostRequest\<close> and \<^verbatim>\<open>makePutRequest\<close> have one body, up to the
  HTTP method and the message of the error they throw on a failure status:
  \<^verbatim>\<open>
  async makePostRequest(path, data) {
    const jwt = await this.authenticate();
    const response = await fetch(url, { method: 'POST', headers: { 'Authorization': jwt, ... }, ... });
    if (!response.ok) {
      if (response.status === 401 && this.jwtToken) {
        this.jwtToken = null;
        return this.makePostRequest(path, data);
      }
      throw new Error(`HTTP ${response.status}: ${response.statusText}; ${await response.text()}`);
    }
    return await response.json();
  }
  \<close>
  \<^verbatim>\<open>makeRequest\<close> (GET) and \<^verbatim>\<open>makePutRequest\<close> throw
  \<^verbatim>\<open>new Error(`HTTP ${response.status}: ${response.statusText}`)\<close>. The comment in
  \<^verbatim>\<open>makeRequest\<close> reads: if unauthorized, clear the JWT token and retry once.
  \<open>execute\<close> is that body with the method as a parameter. The function calls itself
  with no counter, so it is a partial function: \<open>None\<close> is a run that never returns.
\<close>

definition failureMessage :: "http_method \<Rightarrow> response \<Rightarrow> string" where
  "failureMessage m r =
     (case m of
        GET \<Rightarrow> ''HTTP '' @ showNat (status r) @ '': '' @ statusText r
      | POST \<Rightarrow> ''HTTP '' @ showNat (status r) @ '': '' @ statusText r @ ''; '' @ bodyText r
      | PUT \<Rightarrow> ''HTTP '' @ showNat (status r) @ '': '' @ statusText r)"

partial_function (option) execute ::
  "http_method \<Rightarrow> network \<Rightarrow> string \<Rightarrow> json \<Rightarrow> server \<Rightarrow> ((error + json) \<times> server) option"
where
  "execute m net path payload st =
     (case authenticate net st of
        (Inl e, st1) \<Rightarrow> Some (Inl e, st1)
      | (Inr jwt, st1) \<Rightarrow>
          (case fetch net (ApiRequest m path jwt payload) st1 of
             (NetworkFailure, st2) \<Rightarrow> Some (Inl TypeError, st2)
           | (Reply r, st2) \<Rightarrow>
               if \<not> ok r then
                 (if status r = 401 \<and> truthy (jwtToken st2)
                  then execute m net path payload (st2\<lparr>jwtToken := JNull\<rparr>)
                  else Some (Inl (Error (failureMessage m r)), st2))
               else
                 (case bodyJson r of
                    None \<Rightarrow> Some (Inl SyntaxError, st2)
                  | Some v \<Rightarrow> Some (Inr v, st2))))"

declare execute.simps [code]

definition makeRequest ::
  "network \<Rightarrow> string \<Rightarrow> json \<Rightarrow> server \<Rightarrow> ((error + json) \<times> server) option" where
  "makeRequest = execute GET"

definition makePostRequest ::
  "network \<Rightarrow> string \<Rightarrow> json \<Rightarrow> server \<Rightarrow> ((error + json) \<times> server) option" where
  "makePostRequest = execute POST"

definition makePutRequest ::
  "network \<Rightarrow> string \<Rightarrow> json \<Rightarrow> server \<Rightarrow> ((error + json) \<times> server) option" where
  "makePutRequest = execute PUT"

section \<open>createTest and updateTest\<close>

text \<open>
  The request body of \<^verbatim>\<open>createTest(args)\<close> and \<^verbatim>\<open>updateTest(args)\<close>:
  \<^verbatim>\<open>
  const { suite_id, labels_ids, fields, ...attributes } = args;
  const requestData = { data: { type: 'tests', attributes: {
      ...Object.fromEntries(Object.entries(attributes).map(([k, v]) => [k.replace(/_/g, '-'), v])),
      ...(fields && { 'custom-fields': fields }) } } };
  if (suite_id) { requestData.data.relationships = { suite: { data: { type: 'suites', id: suite_id } } }; }
  if (labels_ids) requestData.labels_ids = labels_ids;
  \<close>
  \<^verbatim>\<open>updateTest\<close> also takes \<^verbatim>\<open>test_id\<close> out of the attributes. The tool arguments are
  the list of entries of the \<^verbatim>\<open>args\<close> object. \<open>objectSet\<close> assigns a property: an
  existing key keeps its place, a new key goes last.
\<close>

fun objectSet :: "string \<Rightarrow> json \<Rightarrow> (string \<times> json) list \<Rightarrow> (string \<times> json) list" where
  "objectSet k v [] = [(k, v)]"
| "objectSet k v ((k', v') # rest) =
     (if k' = k then (k, v) # rest else (k', v') # objectSet k v rest)"

definition fromEntries :: "(string \<times> json) list \<Rightarrow> (string \<times> json) list" where
  "fromEntries es = foldl (\<lambda>obj (k, v). objectSet k v obj) [] es"

definition testRequestData :: "string list \<Rightarrow> (string \<times> json) list \<Rightarrow> json" where
  "testRequestData named args =
     (let attributes = filter (\<lambda>(k, v). k \<notin> set named) args;
          renamed = fromEntries (map (\<lambda>(k, v). (replaceAllChar CHR ''_'' ''-'' k, v)) attributes);
          withFields =
            (case map_of args ''fields'' of
               None \<Rightarrow> renamed
             | Some customFields \<Rightarrow>
                 if truthy customFields then objectSet ''custom-fields'' customFields renamed
                 else renamed);
          relationships =
            (case map_of args ''suite_id'' of
               None \<Rightarrow> []
             | Some suite_id \<Rightarrow>
                 if truthy suite_id
                 then [(''relationships'',
                        JObj [(''suite'',
                               JObj [(''data'',
                                      JObj [(''type'', JStr ''suites''), (''id'', suite_id)])])])]
                 else []);
          labels =
            (case map_of args ''labels_ids'' of
               None \<Rightarrow> []
             | Some labels_ids \<Rightarrow> if truthy labels_ids then [(''labels_ids'', labels_ids)] else [])
      in JObj ((''data'',
                JObj ([(''type'', JStr ''tests''), (''attributes'', JObj withFields)]
                      @ relationships)) # labels))"

definition testFields :: "string list" where
  "testFields = [''title'', ''description'', ''code'', ''priority'',
                 ''state'', ''suite-id'', ''tags'', ''file'']"

definition formatTestReply ::
  "string \<Rightarrow> ((error + json) \<times> server) option \<Rightarrow> ((error + string) \<times> server) option" where
  "formatTestReply heading res =
     (case res of
        None \<Rightarrow> None
      | Some (Inl e, st1) \<Rightarrow> Some (Inl e, st1)
      | Some (Inr reply, st1) \<Rightarrow>
          (case getProp (Some reply) ''data'' of
             Inl e \<Rightarrow> Some (Inl e, st1)
           | Inr d \<Rightarrow>
               (case formatModel d ''test'' testFields of
                  Inl e \<Rightarrow> Some (Inl e, st1)
                | Inr formattedTest \<Rightarrow>
                    Some (Inr (heading @ newline @ newline @ formattedTest), st1))))"

definition createTest ::
  "network \<Rightarrow> (string \<times> json) list \<Rightarrow> server \<Rightarrow> ((error + string) \<times> server) option" where
  "createTest net args st =
     formatTestReply ''Successfully created test:''
       (makePostRequest net ''/tests''
          (testRequestData [''suite_id'', ''labels_ids'', ''fields''] args) st)"

definition updateTest ::
  "network \<Rightarrow> (string \<times> json) list \<Rightarrow> server \<Rightarrow> ((error + string) \<times> server) option" where
  "updateTest net args st =
     formatTestReply ''Successfully updated test:''
       (makePutRequest net (''/tests/'' @ jsToStringU (map_of args ''test_id''))
          (testRequestData [''test_id'', ''suite_id'', ''labels_ids'', ''fields''] args) st)"

section \<open>Definitions that follow the specification\<close>

text \<open>The table claim C4 describes: what each single character becomes.\<close>

definition xmlEntity :: "char \<Rightarrow> string" where
  "xmlEntity c =
     (if c = CHR ''&'' then ''&amp;''
      else if c = CHR ''<'' then ''&lt;''
      else if c = CHR ''>'' then ''&gt;''
      else if c = CHR 0x22 then ''&quot;''
      else if c = CHR 0x27 then ''&#39;''
      else [c])"

text \<open>Replacement of every occurrence of a literal pattern of one or more characters,
  scanning from the left without overlaps.\<close>

function replaceAllStr :: "string \<Rightarrow> string \<Rightarrow> string \<Rightarrow> string" where
  "replaceAllStr pat rep [] = []"
| "replaceAllStr pat rep (x # xs) =
     (if pat \<noteq> [] \<and> take (length pat) (x # xs) = pat
      then rep @ replaceAllStr pat rep (drop (length pat) (x # xs))
      else x # replaceAllStr pat rep xs)"
  by pat_completeness auto
termination
  by (relation "measure (\<lambda>(pat, rep, s). length s)") auto

text \<open>The reverse substitution of the specification (its section 8: the five entities
  are reverse-substituted): the five replacements inverted and applied in the reverse
  order, so the ampersand entity is resolved last. The repository has no such function;
  this one follows the specification's words.\<close>

definition unescapeXmlString :: "string \<Rightarrow> string" where
  "unescapeXmlString s =
     replaceAllStr ''&amp;'' ''&''
       (replaceAllStr ''&lt;'' ''<''
         (replaceAllStr ''&gt;'' ''>''
           (replaceAllStr ''&quot;'' [CHR 0x22]
             (replaceAllStr ''&#39;'' [CHR 0x27] s))))"

text \<open>The entity table after the first \<open>k\<close> replacements of the chain.\<close>

definition entityUpTo :: "nat \<Rightarrow> char \<Rightarrow> string" where
  "entityUpTo k c =
     (if c = CHR ''&'' \<and> 1 \<le> k then ''&amp;''
      else if c = CHR ''<'' \<and> 2 \<le> k then ''&lt;''
      else if c = CHR ''>'' \<and> 3 \<le> k then ''&gt;''
      else if c = CHR 0x22 \<and> 4 \<le> k then ''&quot;''
      else if c = CHR 0x27 \<and> 5 \<le> k then ''&#39;''
      else [c])"


text \<open>
  The unit tests of the repository call \<^verbatim>\<open>extractTagsFromTitle\<close> and \<^verbatim>\<open>mergeTags\<close> on
  the server; \<^verbatim>\<open>index.js\<close> defines neither. Both are modelled from the specification
  (section 4.4), with these helpers: the characters of a tag token (letters, digits,
  hyphen, underscore), the tokens of a title in order, and appending the elements of a
  list that are not present yet.
\<close>

definition tagChar :: "char \<Rightarrow> bool" where
  "tagChar c = (c \<in> set ''abcdefghijklmnopqrstuvwxyzABCDEFGHIJKLMNOPQRSTUVWXYZ0123456789_-'')"

function tagTokens :: "string \<Rightarrow> string list" where
  "tagTokens [] = []"
| "tagTokens (c # cs) =
     (if c = CHR ''@'' \<and> takeWhile tagChar cs \<noteq> []
      then takeWhile tagChar cs # tagTokens (dropWhile tagChar cs)
      else tagTokens cs)"
  by pat_completeness auto
termination
  by (relation "measure length") (auto simp: length_dropWhile_le less_Suc_eq_le)

definition addNew :: "string list \<Rightarrow> string list \<Rightarrow> string list" where
  "addNew acc ts = foldl (\<lambda>seen t. if t \<in> set seen then seen else seen @ [t]) acc ts"

text \<open>Modelled from the spec: \<^verbatim>\<open>extractTagsFromTitle\<close>, missing from \<^verbatim>\<open>index.js\<close>.
  The specification: extracting \<^verbatim>\<open>@word\<close> tokens from a title string as implicit tags
  (case-sensitive, dedup in first-seen order, tokens may include hyphens and
  underscores).\<close>

definition extractTagsFromTitle :: "string \<Rightarrow> string list" where
  "extractTagsFromTitle title = addNew [] (tagTokens title)"

text \<open>Modelled from the spec: \<^verbatim>\<open>mergeTags\<close>, missing from \<^verbatim>\<open>index.js\<close>. The
  specification: merging an explicit tag list with extracted tags such that explicit
  tags keep their order and have any leading \<^verbatim>\<open>@\<close> stripped, followed by extracted tags
  not already present.\<close>

definition stripAt :: "string \<Rightarrow> string" where
  "stripAt t = (case t of [] \<Rightarrow> [] | c # cs \<Rightarrow> if c = CHR ''@'' then cs else t)"

definition mergeTags :: "string list \<Rightarrow> string list \<Rightarrow> string list" where
  "mergeTags explicit extracted = addNew (map stripAt explicit) extracted"

section \<open>Scripted networks and test inputs\<close>

text \<open>A network that answers from a list of responses, one per call, as the mocked
  \<^verbatim>\<open>fetch\<close> of the unit tests does; once the list is used up the call fails.\<close>

definition scripted :: "response list \<Rightarrow> network" where
  "scripted rs n = (if n < length rs then Reply (rs ! n) else NetworkFailure)"

definition unauthorized :: response where
  "unauthorized = \<lparr>status = 401, statusText = ''Unauthorized'', bodyText = [], bodyJson = None\<rparr>"

definition okJson :: "json \<Rightarrow> response" where
  "okJson v = \<lparr>status = 200, statusText = ''OK'', bodyText = [], bodyJson = Some v\<rparr>"

definition serverError :: response where
  "serverError = \<lparr>status = 500, statusText = ''Internal Server Error'',
                   bodyText = ''boom'', bodyJson = None\<rparr>"

text \<open>A server that accepts every login and answers 401 to every API request, seen
  from a run that starts with a cached token: the calls alternate between API request
  (even positions) and login (odd positions).\<close>

definition always401 :: network where
  "always401 n =
     (if even n then Reply unauthorized else Reply (okJson (JObj [(''jwt'', JStr ''fresh'')])))"

text \<open>The states such a run passes through on entry to \<open>execute\<close>: a token is cached
  exactly when the next call is at an even position.\<close>

definition retrying :: "server \<Rightarrow> bool" where
  "retrying st =
     (if even (length (sent st)) then truthy (jwtToken st) else \<not> truthy (jwtToken st))"

text \<open>The mocked answer and the arguments of the unit test "should create test with
  merged tags from title and explicit".\<close>

definition createdReply :: response where
  "createdReply =
     okJson (JObj [(''data'', JObj [(''id'', JStr ''test-125''),
       (''attributes'', JObj [(''title'', JStr ''@smoke test with both tag types'')])])])"

definition bothTagTypes :: "(string \<times> json) list" where
  "bothTagTypes =
     [(''suite_id'', JStr ''suite-456''),
      (''title'', JStr ''@smoke test with both tag types''),
      (''tags'', JArr [JStr ''api'', JStr ''regression''])]"

section \<open>Properties of escapeXml\<close>

subsection \<open>The chain is a character-wise substitution\<close>

lemma replaceAllChar_Cons:
  "replaceAllChar c rep (x # xs) = (if x = c then rep else [x]) @ replaceAllChar c rep xs"
  by (simp add: replaceAllChar_def)

lemma replaceAllChar_append:
  "replaceAllChar c rep (xs @ ys) = replaceAllChar c rep xs @ replaceAllChar c rep ys"
  by (simp add: replaceAllChar_def)

lemma replaceAllChar_concat_map:
  "replaceAllChar c rep (concat (map f s)) = concat (map (\<lambda>x. replaceAllChar c rep (f x)) s)"
  by (induction s) (simp_all add: replaceAllChar_append replaceAllChar_def)

lemma entityUpTo_0: "concat (map (entityUpTo 0) s) = s"
  by (induction s) (simp_all add: entityUpTo_def)

lemma entityUpTo_5: "entityUpTo 5 = xmlEntity"
  by (rule ext) (simp add: entityUpTo_def xmlEntity_def)

lemma esc_step1: "replaceAllChar CHR ''&'' ''&amp;'' (entityUpTo 0 c) = entityUpTo 1 c"
  by (simp add: entityUpTo_def replaceAllChar_Cons replaceAllChar_def)

lemma esc_step2: "replaceAllChar CHR ''<'' ''&lt;'' (entityUpTo 1 c) = entityUpTo 2 c"
  by (simp add: entityUpTo_def replaceAllChar_Cons replaceAllChar_def)

lemma esc_step3: "replaceAllChar CHR ''>'' ''&gt;'' (entityUpTo 2 c) = entityUpTo 3 c"
  by (simp add: entityUpTo_def replaceAllChar_Cons replaceAllChar_def)

lemma esc_step4: "replaceAllChar (CHR 0x22) ''&quot;'' (entityUpTo 3 c) = entityUpTo 4 c"
  by (simp add: entityUpTo_def replaceAllChar_Cons replaceAllChar_def)

lemma esc_step5: "replaceAllChar (CHR 0x27) ''&#39;'' (entityUpTo 4 c) = entityUpTo 5 c"
  by (simp add: entityUpTo_def replaceAllChar_Cons replaceAllChar_def)

lemma escapeXmlString_entities: "escapeXmlString s = concat (map xmlEntity s)"
proof -
  have "replaceAllChar CHR ''&'' ''&amp;'' s = concat (map (entityUpTo 1) s)"
    using replaceAllChar_concat_map [of "CHR ''&''" "''&amp;''" "entityUpTo 0" s]
    by (simp only: entityUpTo_0 esc_step1)
  then have "escapeXmlString s = concat (map (entityUpTo 5) s)"
    unfolding escapeXmlString_def
    by (simp only: replaceAllChar_concat_map esc_step2 esc_step3 esc_step4 esc_step5)
  then show ?thesis by (simp only: entityUpTo_5)
qed

lemma escapeXmlString_append:
  "escapeXmlString (xs @ ys) = escapeXmlString xs @ escapeXmlString ys"
  by (simp add: escapeXmlString_entities)

subsection \<open>Undoing the chain, one entity at a time\<close>

lemma unesc_step5:
  "replaceAllStr ''&#39;'' [CHR 0x27] (entityUpTo 5 c @ r) =
   entityUpTo 4 c @ replaceAllStr ''&#39;'' [CHR 0x27] r"
  by (simp add: entityUpTo_def)

lemma unesc_step4:
  "replaceAllStr ''&quot;'' [CHR 0x22] (entityUpTo 4 c @ r) =
   entityUpTo 3 c @ replaceAllStr ''&quot;'' [CHR 0x22] r"
  by (simp add: entityUpTo_def)

lemma unesc_step3:
  "replaceAllStr ''&gt;'' ''>'' (entityUpTo 3 c @ r) =
   entityUpTo 2 c @ replaceAllStr ''&gt;'' ''>'' r"
  by (simp add: entityUpTo_def)

lemma unesc_step2:
  "replaceAllStr ''&lt;'' ''<'' (entityUpTo 2 c @ r) =
   entityUpTo 1 c @ replaceAllStr ''&lt;'' ''<'' r"
  by (simp add: entityUpTo_def)

lemma unesc_step1:
  "replaceAllStr ''&amp;'' ''&'' (entityUpTo 1 c @ r) =
   entityUpTo 0 c @ replaceAllStr ''&amp;'' ''&'' r"
  by (simp add: entityUpTo_def)

lemma unesc_all5:
  "replaceAllStr ''&#39;'' [CHR 0x27] (concat (map (entityUpTo 5) s)) =
   concat (map (entityUpTo 4) s)"
  by (induction s) (simp_all only: list.map concat.simps unesc_step5 replaceAllStr.simps)

lemma unesc_all4:
  "replaceAllStr ''&quot;'' [CHR 0x22] (concat (map (entityUpTo 4) s)) =
   concat (map (entityUpTo 3) s)"
  by (induction s) (simp_all only: list.map concat.simps unesc_step4 replaceAllStr.simps)

lemma unesc_all3:
  "replaceAllStr ''&gt;'' ''>'' (concat (map (entityUpTo 3) s)) = concat (map (entityUpTo 2) s)"
  by (induction s) (simp_all only: list.map concat.simps unesc_step3 replaceAllStr.simps)

lemma unesc_all2:
  "replaceAllStr ''&lt;'' ''<'' (concat (map (entityUpTo 2) s)) = concat (map (entityUpTo 1) s)"
  by (induction s) (simp_all only: list.map concat.simps unesc_step2 replaceAllStr.simps)

lemma unesc_all1:
  "replaceAllStr ''&amp;'' ''&'' (concat (map (entityUpTo 1) s)) = concat (map (entityUpTo 0) s)"
  by (induction s) (simp_all only: list.map concat.simps unesc_step1 replaceAllStr.simps)

text \<open>
  Claim C4. For every string, \<open>escapeXml\<close> replaces exactly the five characters
  \<^verbatim>\<open>&\<close>, \<^verbatim>\<open><\<close>, \<^verbatim>\<open>>\<close>, the double quote and the single quote by their entities and
  leaves every other character as it is (the result is the concatenation of the
  per-character table \<open>xmlEntity\<close>, so an ampersand produced by a later replacement is
  never escaped again), and substituting the five entities back reconstructs the
  original string.
\<close>

theorem escapeXml_roundtrip:
  "escapeXml (JStr s) = JStr (concat (map xmlEntity s)) \<and>
   unescapeXmlString (escapeXmlString s) = s"
proof
  have e: "escapeXmlString s = concat (map xmlEntity s)"
    by (rule escapeXmlString_entities)
  then show "escapeXml (JStr s) = JStr (concat (map xmlEntity s))"
    by simp
  show "unescapeXmlString (escapeXmlString s) = s"
    unfolding unescapeXmlString_def e entityUpTo_5 [symmetric]
    by (simp only: unesc_all5 unesc_all4 unesc_all3 unesc_all2 unesc_all1 entityUpTo_0)
qed

theorem escapeXml_roundtrip_witness:
  "escapeXml (JStr ''a<b & c'') = JStr ''a&lt;b &amp; c'' \<and>
   unescapeXmlString (escapeXmlString ''&lt;tag&gt;'') = ''&lt;tag&gt;''"
proof
  show "escapeXml (JStr ''a<b & c'') = JStr ''a&lt;b &amp; c''"
    using escapeXml_roundtrip [of "''a<b & c''"] by (simp add: xmlEntity_def)
  show "unescapeXmlString (escapeXmlString ''&lt;tag&gt;'') = ''&lt;tag&gt;''"
    by (rule conjunct2 [OF escapeXml_roundtrip])
qed

section \<open>Properties of the formatter\<close>

lemma joinStr_empty_sep: "joinStr [] xs = concat xs"
  by (induction "[] :: string" xs rule: joinStr.induct) simp_all







text \<open>
  Claim C6. An array value is rendered as one child element per item, in the order of
  the array, and the child tag depends on the field name only: \<^verbatim>\<open><tag>\<close> for
  \<^verbatim>\<open>tags\<close>, \<^verbatim>\<open><label>\<close> for \<^verbatim>\<open>labels\<close>, \<^verbatim>\<open><test_id>\<close> for \<^verbatim>\<open>tests-ids\<close> and
  \<^verbatim>\<open><item>\<close> for every other name. The witness evaluates the specification's
  example: \<^verbatim>\<open>['smoke','regression']\<close> under \<^verbatim>\<open>tags\<close> gives
  \<^verbatim>\<open><tag>smoke</tag><tag>regression</tag>\<close>, with no \<^verbatim>\<open><item>\<close> element, and
  \<open>formatModel\<close> with the projection list \<^verbatim>\<open>['tags']\<close> puts exactly that inside
  the \<^verbatim>\<open><tags>\<close> element of the field.
\<close>

theorem formatValue_array_children:
  "formatValue (Some (JArr xs)) ''tags'' =
     Inr (concat (map (\<lambda>x. ''<tag>'' @ jsToString (escapeXml x) @ ''</tag>'') xs)) \<and>
   formatValue (Some (JArr xs)) ''labels'' =
     Inr (concat (map (\<lambda>x. ''<label>'' @ jsToString (escapeXml x) @ ''</label>'') xs)) \<and>
   formatValue (Some (JArr xs)) ''tests-ids'' =
     Inr (concat (map (\<lambda>x. ''<test_id>'' @ jsToString x @ ''</test_id>'') xs)) \<and>
   (fieldName \<noteq> ''tags'' \<and> fieldName \<noteq> ''labels'' \<and> fieldName \<noteq> ''tests-ids'' \<longrightarrow>
    formatValue (Some (JArr xs)) fieldName =
      Inr (concat (map (\<lambda>x. ''<item>'' @ jsToString (escapeXml x) @ ''</item>'') xs))) \<and>
   formatModel
     (Some (JObj [(''id'', JStr ''1''),
                  (''attributes'', JObj [(''tags'', JArr [JStr ''smoke'', JStr ''regression''])])]))
     ''test'' [''tags'']
   = Inr (''<test>'' @ newline @ ''  <id>1</id>'' @ newline @
          ''  <tags><tag>smoke</tag><tag>regression</tag></tags>'' @ newline @ ''</test>'')"
proof -
  have "formatModel
     (Some (JObj [(''id'', JStr ''1''),
                  (''attributes'', JObj [(''tags'', JArr [JStr ''smoke'', JStr ''regression''])])]))
     ''test'' [''tags'']
   = Inr (''<test>'' @ newline @ ''  <id>1</id>'' @ newline @
          ''  <tags><tag>smoke</tag><tag>regression</tag></tags>'' @ newline @ ''</test>'')"
    by (simp add: formatModel_def formatField_def fieldValue_def xmlFieldName_def orElse_def
        orElseV_def escapeXmlString_def replaceAllChar_def)
  then show ?thesis
    by (simp add: joinStr_empty_sep)
qed

theorem formatValue_array_children_witness:
  "formatValue (Some (JArr [JStr ''smoke'', JStr ''regression''])) ''tags'' =
     Inr ''<tag>smoke</tag><tag>regression</tag>'' \<and>
   formatValue (Some (JArr [JStr ''smoke'', JStr ''regression''])) ''labels'' =
     Inr ''<label>smoke</label><label>regression</label>'' \<and>
   formatValue (Some (JArr [JStr ''t1'', JStr ''t2''])) ''tests-ids'' =
     Inr ''<test_id>t1</test_id><test_id>t2</test_id>'' \<and>
   ''files'' \<noteq> ''tags'' \<and> ''files'' \<noteq> ''labels'' \<and> ''files'' \<noteq> ''tests-ids'' \<and>
   formatValue (Some (JArr [JStr ''a.js'', JNum 2])) ''files'' =
     Inr ''<item>a.js</item><item>2</item>''"
  using formatValue_array_children [of "[JStr ''smoke'', JStr ''regression'']" "''files''"]
        formatValue_array_children [of "[JStr ''t1'', JStr ''t2'']" "''files''"]
        formatValue_array_children [of "[JStr ''a.js'', JNum 2]" "''files''"]
  by (simp add: escapeXmlString_def replaceAllChar_def showInt_def showNat.simps)

text \<open>
  Claim C10. The string elements of a \<^verbatim>\<open>tests-ids\<close> array are copied into the
  \<^verbatim>\<open><test_id>\<close> elements verbatim, while the elements of \<^verbatim>\<open>tags\<close>, \<^verbatim>\<open>labels\<close> and
  generic arrays pass through \<open>escapeXml\<close>; so the element \<^verbatim>\<open>a<b&c\<close> appears
  unescaped in the markup of \<^verbatim>\<open>tests-ids\<close> and escaped in that of \<^verbatim>\<open>tags\<close>.
\<close>

theorem tests_ids_not_escaped:
  "formatValue (Some (JArr (map JStr ids))) ''tests-ids'' =
     Inr (concat (map (\<lambda>s. ''<test_id>'' @ s @ ''</test_id>'') ids)) \<and>
   formatValue (Some (JArr (map JStr ids))) ''tags'' =
     Inr (concat (map (\<lambda>s. ''<tag>'' @ escapeXmlString s @ ''</tag>'') ids)) \<and>
   formatValue (Some (JArr (map JStr ids))) ''labels'' =
     Inr (concat (map (\<lambda>s. ''<label>'' @ escapeXmlString s @ ''</label>'') ids)) \<and>
   formatValue (Some (JArr (map JStr ids))) ''items'' =
     Inr (concat (map (\<lambda>s. ''<item>'' @ escapeXmlString s @ ''</item>'') ids)) \<and>
   formatValue (Some (JArr [JStr ''a<b&c''])) ''tests-ids'' = Inr ''<test_id>a<b&c</test_id>'' \<and>
   formatValue (Some (JArr [JStr ''a<b&c''])) ''tags'' = Inr ''<tag>a&lt;b&amp;c</tag>''"
  by (simp add: joinStr_empty_sep comp_def escapeXmlString_def replaceAllChar_def)

section \<open>Properties of the authenticator\<close>

lemmas eval_defs = execute.simps authenticate_def fetch_def scripted_def unauthorized_def
  okJson_def serverError_def ok_def failureMessage_def showNat.simps

text \<open>
  Claim C3. When a credential is cached, \<open>authenticate\<close> returns it and makes no
  network call (the state, log included, is unchanged). So after a call that succeeded,
  a second call with no invalidation in between returns the identical value and adds
  nothing to the log: starting from an empty slot the two calls make exactly one
  network call, the login of the first.
\<close>

theorem authenticate_cached:
  "(truthy (jwtToken st) \<longrightarrow> authenticate net st = (Inr (jwtToken st), st)) \<and>
   (authenticate net st = (Inr t, st1) \<longrightarrow>
      authenticate net st1 = (Inr t, st1) \<and> jwtToken st1 = t \<and>
      (if truthy (jwtToken st) then sent st1 = sent st
       else sent st1 = sent st @ [LoginRequest]))"
  by (auto simp: authenticate_def fetch_def split: fetch_result.splits option.splits
      sum.splits if_splits)

theorem authenticate_cached_witness:
  "truthy (jwtToken \<lparr>jwtToken = JStr ''cached-jwt-token'', sent = []\<rparr>) \<and>
   authenticate (scripted []) \<lparr>jwtToken = JStr ''cached-jwt-token'', sent = []\<rparr>
     = (Inr (JStr ''cached-jwt-token''), \<lparr>jwtToken = JStr ''cached-jwt-token'', sent = []\<rparr>) \<and>
   authenticate (scripted [okJson (JObj [(''jwt'', JStr ''test-jwt'')])])
       \<lparr>jwtToken = JNull, sent = []\<rparr>
     = (Inr (JStr ''test-jwt''), \<lparr>jwtToken = JStr ''test-jwt'', sent = [LoginRequest]\<rparr>) \<and>
   authenticate (scripted [okJson (JObj [(''jwt'', JStr ''test-jwt'')])])
       \<lparr>jwtToken = JStr ''test-jwt'', sent = [LoginRequest]\<rparr>
     = (Inr (JStr ''test-jwt''), \<lparr>jwtToken = JStr ''test-jwt'', sent = [LoginRequest]\<rparr>)"
proof -
  let ?net = "scripted [okJson (JObj [(''jwt'', JStr ''test-jwt'')])]"
  let ?st1 = "\<lparr>jwtToken = JStr ''test-jwt'', sent = [LoginRequest]\<rparr>"
  have first: "authenticate ?net \<lparr>jwtToken = JNull, sent = []\<rparr> = (Inr (JStr ''test-jwt''), ?st1)"
    by (simp add: eval_defs)
  have second: "authenticate ?net ?st1 = (Inr (JStr ''test-jwt''), ?st1)"
    using authenticate_cached [of "\<lparr>jwtToken = JNull, sent = []\<rparr>" ?net "JStr ''test-jwt''" ?st1]
      first by blast
  have cached: "authenticate (scripted []) \<lparr>jwtToken = JStr ''cached-jwt-token'', sent = []\<rparr>
     = (Inr (JStr ''cached-jwt-token''), \<lparr>jwtToken = JStr ''cached-jwt-token'', sent = []\<rparr>)"
    using authenticate_cached [of "\<lparr>jwtToken = JStr ''cached-jwt-token'', sent = []\<rparr>"
        "scripted []"] by simp
  show ?thesis using first second cached by simp
qed



section \<open>Properties of the request executor\<close>

text \<open>Against the server \<open>always401\<close> a run of \<open>execute\<close> that starts in a
  \<open>retrying\<close> state re-enters \<open>execute\<close> in a \<open>retrying\<close> state, so it never
  returns.\<close>

lemma execute_always401_never_returns:
  assumes "execute m net path payload st = Some y"
  shows "\<not> (net = always401 \<and> retrying st)"
proof (rule execute.raw_induct
    [where P = "\<lambda>m net path payload st y. \<not> (net = always401 \<and> retrying st)", OF _ assms],
    goal_cases)
  case (1 execute' m net path payload st y)
  show ?case
  proof
    assume a: "net = always401 \<and> retrying st"
    show False
    proof (cases "even (length (sent st))")
      case True
      with a 1(2) have "execute' m net path payload
          (st\<lparr>sent := sent st @ [ApiRequest m path (jwtToken st) payload],
               jwtToken := JNull\<rparr>) = Some y"
        by (simp add: retrying_def authenticate_def fetch_def always401_def unauthorized_def
            ok_def)
      from 1(1) [OF this] a True show False
        by (simp add: retrying_def)
    next
      case False
      with a 1(2) have "execute' m net path payload
          (st\<lparr>sent := sent st @ [LoginRequest, ApiRequest m path (JStr ''fresh'') payload],
               jwtToken := JNull\<rparr>) = Some y"
        by (simp add: retrying_def authenticate_def fetch_def always401_def unauthorized_def
            okJson_def ok_def)
      from 1(1) [OF this] a False show False
        by (simp add: retrying_def)
    qed
  qed
qed

text \<open>What does hold of the retry: with a cached token, a 401 answer, a login that
  succeeds and an API answer with a success status and a JSON body, the request
  returns that body after exactly three network calls, the second attempt carrying
  the fresh token.\<close>

lemma execute_retry_three_calls:
  assumes "truthy (jwtToken st)"
    and "net (length (sent st)) = Reply r1" and "status r1 = 401"
    and "net (Suc (length (sent st))) = Reply r2" and "ok r2"
    and "bodyJson r2 = Some d" and "d \<noteq> JNull" and "ownProp d ''jwt'' = Some jwt"
    and "truthy jwt"
    and "net (Suc (Suc (length (sent st)))) = Reply r3" and "ok r3" and "bodyJson r3 = Some v"
  shows "execute m net path payload st =
           Some (Inr v, \<lparr>jwtToken = jwt,
                        sent = sent st @ [ApiRequest m path (jwtToken st) payload, LoginRequest,
                                          ApiRequest m path jwt payload]\<rparr>)"
proof -
  let ?st1 = "st\<lparr>sent := sent st @ [ApiRequest m path (jwtToken st) payload], jwtToken := JNull\<rparr>"
  have nok: "\<not> ok r1" using assms(3) by (simp add: ok_def)
  have "execute m net path payload st = execute m net path payload ?st1"
    using assms(1,2,3) nok
    by (subst execute.simps) (simp add: authenticate_def fetch_def)
  also have "\<dots> = Some (Inr v, \<lparr>jwtToken = jwt,
                        sent = sent st @ [ApiRequest m path (jwtToken st) payload, LoginRequest,
                                          ApiRequest m path jwt payload]\<rparr>)"
    using assms(4-12)
    by (subst execute.simps) (cases d; simp add: authenticate_def fetch_def)
  finally show ?thesis .
qed

text \<open>
  Claim C1 fails on the code. The guard of the retry, \<^verbatim>\<open>this.jwtToken\<close>, is read after
  \<^verbatim>\<open>authenticate()\<close> has filled the slot, so it is true at every 401 and the retried
  request is retried again. With a cached token and the answers 401, login, 401,
  login, 200 the one logical GET makes five network calls (three attempts); against a
  server that answers 401 to every API request and accepts every login, GET, POST and
  PUT never return.
\<close>

theorem makeRequest_retries_without_bound:
  "makeRequest
     (scripted [unauthorized, okJson (JObj [(''jwt'', JStr ''new1'')]),
                unauthorized, okJson (JObj [(''jwt'', JStr ''new2'')]),
                okJson (JObj [(''data'', JArr [])])])
     ''/tests'' (JObj []) \<lparr>jwtToken = JStr ''old'', sent = []\<rparr>
   = Some (Inr (JObj [(''data'', JArr [])]),
           \<lparr>jwtToken = JStr ''new2'',
            sent = [ApiRequest GET ''/tests'' (JStr ''old'') (JObj []), LoginRequest,
                    ApiRequest GET ''/tests'' (JStr ''new1'') (JObj []), LoginRequest,
                    ApiRequest GET ''/tests'' (JStr ''new2'') (JObj [])]\<rparr>) \<and>
   makeRequest always401 ''/tests'' (JObj []) \<lparr>jwtToken = JStr ''old'', sent = []\<rparr> = None \<and>
   makePostRequest always401 ''/tests'' (JObj []) \<lparr>jwtToken = JStr ''old'', sent = []\<rparr> = None \<and>
   makePutRequest always401 ''/tests/1'' (JObj []) \<lparr>jwtToken = JStr ''old'', sent = []\<rparr> = None"
proof -
  have "retrying \<lparr>jwtToken = JStr ''old'', sent = []\<rparr>"
    by (simp add: retrying_def)
  then have "execute m always401 path payload \<lparr>jwtToken = JStr ''old'', sent = []\<rparr> = None"
    for m path payload
    using execute_always401_never_returns [of m always401 path payload
        "\<lparr>jwtToken = JStr ''old'', sent = []\<rparr>"]
    by (cases "execute m always401 path payload \<lparr>jwtToken = JStr ''old'', sent = []\<rparr>") auto
  then show ?thesis
    by (simp add: makeRequest_def makePostRequest_def makePutRequest_def eval_defs)
qed

text \<open>
  Claim C2 fails on the code. A request made with no credential cached logs in first;
  its 401 is then retried like any other, since the slot has just been filled: with
  the answers login, 401, login, 200 the request succeeds after four network calls,
  where the claim has it fail after the second.
\<close>

theorem makeRequest_retries_after_refresh:
  "makeRequest
     (scripted [okJson (JObj [(''jwt'', JStr ''fresh1'')]), unauthorized,
                okJson (JObj [(''jwt'', JStr ''fresh2'')]),
                okJson (JObj [(''data'', JArr [])])])
     ''/tests'' (JObj []) \<lparr>jwtToken = JNull, sent = []\<rparr>
   = Some (Inr (JObj [(''data'', JArr [])]),
           \<lparr>jwtToken = JStr ''fresh2'',
            sent = [LoginRequest, ApiRequest GET ''/tests'' (JStr ''fresh1'') (JObj []),
                    LoginRequest, ApiRequest GET ''/tests'' (JStr ''fresh2'') (JObj [])]\<rparr>)"
  by (simp add: makeRequest_def eval_defs)

text \<open>
  Claim C8 holds for POST and fails for PUT. On the answer 500 with the body
  \<^verbatim>\<open>boom\<close>, \<open>makePostRequest\<close> throws an error whose message carries the status, the
  status text and the body text, and \<open>makePutRequest\<close> throws one that carries the
  status and the status text only.
\<close>

theorem put_failure_omits_body:
  "makePutRequest (scripted [serverError]) ''/tests/1'' (JObj [])
       \<lparr>jwtToken = JStr ''test-jwt'', sent = []\<rparr>
     = Some (Inl (Error ''HTTP 500: Internal Server Error''),
             \<lparr>jwtToken = JStr ''test-jwt'',
              sent = [ApiRequest PUT ''/tests/1'' (JStr ''test-jwt'') (JObj [])]\<rparr>) \<and>
   makePostRequest (scripted [serverError]) ''/tests'' (JObj [])
       \<lparr>jwtToken = JStr ''test-jwt'', sent = []\<rparr>
     = Some (Inl (Error ''HTTP 500: Internal Server Error; boom''),
             \<lparr>jwtToken = JStr ''test-jwt'',
              sent = [ApiRequest POST ''/tests'' (JStr ''test-jwt'') (JObj [])]\<rparr>)"
  by (simp add: makePutRequest_def makePostRequest_def eval_defs)

text \<open>The same for every failure status other than 401.\<close>

lemma execute_failure_message:
  assumes "truthy (jwtToken st)"
    and "net (length (sent st)) = Reply r" and "\<not> ok r" and "status r \<noteq> 401"
  shows "execute m net path payload st =
           Some (Inl (Error (failureMessage m r)),
                 st\<lparr>sent := sent st @ [ApiRequest m path (jwtToken st) payload]\<rparr>)"
  using assms by (subst execute.simps) (simp add: authenticate_def fetch_def)

section \<open>Properties of createTest\<close>

text \<open>
  Claim C9 fails on the code. \<^verbatim>\<open>createTest\<close> sends the \<^verbatim>\<open>tags\<close> argument as it was
  given: on the arguments of the repository's unit test (title
  \<^verbatim>\<open>@smoke test with both tag types\<close>, explicit tags \<^verbatim>\<open>api\<close> and \<^verbatim>\<open>regression\<close>) the body
  posted to \<^verbatim>\<open>/tests\<close> carries the tags \<^verbatim>\<open>api\<close>, \<^verbatim>\<open>regression\<close>, while the merge the
  claim describes yields \<^verbatim>\<open>api\<close>, \<^verbatim>\<open>regression\<close>, \<^verbatim>\<open>smoke\<close>, which is what the test
  expects in the body. \<^verbatim>\<open>updateTest\<close> builds its body the same way. The two
  utilities of the claim behave on the specification's examples as it says.
\<close>

theorem createTest_sends_unmerged_tags:
  "createTest (scripted [createdReply]) bothTagTypes \<lparr>jwtToken = JStr ''test-jwt'', sent = []\<rparr>
   = Some (Inr (''Successfully created test:'' @ newline @ newline @
                ''<test>'' @ newline @
                ''  <id>test-125</id>'' @ newline @
                ''  <title>@smoke test with both tag types</title>'' @ newline @
                ''  <description></description>'' @ newline @
                ''  <code></code>'' @ newline @
                ''  <priority></priority>'' @ newline @
                ''  <state></state>'' @ newline @
                ''  <suite-id></suite-id>'' @ newline @
                ''  <tags></tags>'' @ newline @
                ''  <file></file>'' @ newline @
                ''</test>''),
           \<lparr>jwtToken = JStr ''test-jwt'',
            sent = [ApiRequest POST ''/tests'' (JStr ''test-jwt'')
              (JObj [(''data'',
                 JObj [(''type'', JStr ''tests''),
                       (''attributes'',
                          JObj [(''title'', JStr ''@smoke test with both tag types''),
                                (''tags'', JArr [JStr ''api'', JStr ''regression''])]),
                       (''relationships'',
                          JObj [(''suite'', JObj [(''data'',
                             JObj [(''type'', JStr ''suites''), (''id'', JStr ''suite-456'')])])])])])]\<rparr>) \<and>
   map_option (\<lambda>(res, st). sent st)
     (updateTest (scripted [createdReply]) ((''test_id'', JStr ''test-126'') # bothTagTypes)
        \<lparr>jwtToken = JStr ''test-jwt'', sent = []\<rparr>)
   = Some [ApiRequest PUT ''/tests/test-126'' (JStr ''test-jwt'')
              (JObj [(''data'',
                 JObj [(''type'', JStr ''tests''),
                       (''attributes'',
                          JObj [(''title'', JStr ''@smoke test with both tag types''),
                                (''tags'', JArr [JStr ''api'', JStr ''regression''])]),
                       (''relationships'',
                          JObj [(''suite'', JObj [(''data'',
                             JObj [(''type'', JStr ''suites''), (''id'', JStr ''suite-456'')])])])])])] \<and>
   extractTagsFromTitle ''@smoke test with both tag types'' = [''smoke''] \<and>
   mergeTags [''api'', ''regression''] (extractTagsFromTitle ''@smoke test with both tag types'')
     = [''api'', ''regression'', ''smoke''] \<and>
   extractTagsFromTitle ''@smoke @regression test with @critical priority''
     = [''smoke'', ''regression'', ''critical''] \<and>
   mergeTags [''@frontend'', ''backend'', ''@ui''] [''api'']
     = [''frontend'', ''backend'', ''ui'', ''api'']"
proof -
  have tags: "extractTagsFromTitle ''@smoke test with both tag types'' = [''smoke'']"
    "extractTagsFromTitle ''@smoke @regression test with @critical priority''
       = [''smoke'', ''regression'', ''critical'']"
    by (simp_all add: extractTagsFromTitle_def addNew_def tagChar_def)
  have merged: "mergeTags [''api'', ''regression''] [''smoke''] = [''api'', ''regression'', ''smoke'']"
    "mergeTags [''@frontend'', ''backend'', ''@ui''] [''api'']
       = [''frontend'', ''backend'', ''ui'', ''api'']"
    by (simp_all add: mergeTags_def addNew_def stripAt_def)
  have body: "testRequestData [''suite_id'', ''labels_ids'', ''fields''] bothTagTypes =
      JObj [(''data'',
                 JObj [(''type'', JStr ''tests''),
                       (''attributes'',
                          JObj [(''title'', JStr ''@smoke test with both tag types''),
                                (''tags'', JArr [JStr ''api'', JStr ''regression''])]),
                       (''relationships'',
                          JObj [(''suite'', JObj [(''data'',
                             JObj [(''type'', JStr ''suites''), (''id'', JStr ''suite-456'')])])])])]"
    "testRequestData [''test_id'', ''suite_id'', ''labels_ids'', ''fields'']
        ((''test_id'', JStr ''test-126'') # bothTagTypes) =
      testRequestData [''suite_id'', ''labels_ids'', ''fields''] bothTagTypes"
    by (simp_all add: testRequestData_def bothTagTypes_def fromEntries_def replaceAllChar_def)
  have reply: "formatModel (Some (JObj [(''id'', JStr ''test-125''),
        (''attributes'', JObj [(''title'', JStr ''@smoke test with both tag types'')])]))
        ''test'' testFields
      = Inr (''<test>'' @ newline @
                ''  <id>test-125</id>'' @ newline @
                ''  <title>@smoke test with both tag types</title>'' @ newline @
                ''  <description></description>'' @ newline @
                ''  <code></code>'' @ newline @
                ''  <priority></priority>'' @ newline @
                ''  <state></state>'' @ newline @
                ''  <suite-id></suite-id>'' @ newline @
                ''  <tags></tags>'' @ newline @
                ''  <file></file>'' @ newline @
                ''</test>'')"
    by (simp add: testFields_def formatModel_def formatField_def fieldValue_def xmlFieldName_def
        orElse_def orElseV_def escapeXmlString_def replaceAllChar_def)
  have created: "createTest (scripted [createdReply]) bothTagTypes
        \<lparr>jwtToken = JStr ''test-jwt'', sent = []\<rparr>
      = Some (Inr (''Successfully created test:'' @ newline @ newline @
                ''<test>'' @ newline @
                ''  <id>test-125</id>'' @ newline @
                ''  <title>@smoke test with both tag types</title>'' @ newline @
                ''  <description></description>'' @ newline @
                ''  <code></code>'' @ newline @
                ''  <priority></priority>'' @ newline @
                ''  <state></state>'' @ newline @
                ''  <suite-id></suite-id>'' @ newline @
                ''  <tags></tags>'' @ newline @
                ''  <file></file>'' @ newline @
                ''</test>''),
           \<lparr>jwtToken = JStr ''test-jwt'',
            sent = [ApiRequest POST ''/tests'' (JStr ''test-jwt'')
              (testRequestData [''suite_id'', ''labels_ids'', ''fields''] bothTagTypes)]\<rparr>)"
    unfolding createTest_def makePostRequest_def
    by (subst execute.simps)
       (simp add: formatTestReply_def authenticate_def fetch_def scripted_def createdReply_def
          okJson_def ok_def reply)
  have updated: "map_option (\<lambda>(res, st). sent st)
     (updateTest (scripted [createdReply]) ((''test_id'', JStr ''test-126'') # bothTagTypes)
        \<lparr>jwtToken = JStr ''test-jwt'', sent = []\<rparr>)
   = Some [ApiRequest PUT ''/tests/test-126'' (JStr ''test-jwt'')
        (testRequestData [''suite_id'', ''labels_ids'', ''fields''] bothTagTypes)]"
    unfolding updateTest_def makePutRequest_def body(2)
    by (subst execute.simps)
       (simp add: formatTestReply_def authenticate_def fetch_def scripted_def createdReply_def
          okJson_def ok_def reply)
  show ?thesis
    unfolding created updated tags merged body(1) by simp
qed

end
